theory Spec2Isabelle
  imports Main "HOL-Library.AList"
begin

section \<open>JavaScript values, objects and the store\<close>

text \<open>
  The library passes JavaScript values around without looking inside most of them.
  A value is a primitive or a reference to an object of the store; two references are
  the same object exactly when their addresses are equal, which is what makes "the very
  same object" and "a mutation seen by the caller" statable. Numbers are restricted
  to the integers: no function below computes with them. The store is total: an
  address that is not in use holds an object nobody refers to, and creating an object
  writes it at an address the caller of the model supplies.
\<close>

type_synonym addr = nat

datatype jsval = JUndefined | JNull | JBool bool | JNum int | JStr string | JRef addr

text \<open>
  An object: its properties in insertion order, the names of the properties that are
  non-writable and non-configurable, whether new properties may be added, and whether it
  is a function (\<open>instanceof Function\<close>, callable, \<open>typeof\<close> \<open>'function'\<close>).
  Accessor properties and proxies are not modelled: reading a property has no effect.
\<close>

record obj =
  props :: "(string \<times> jsval) list"
  readonly :: "string set"
  extensible :: bool
  callable :: bool

text \<open>
  The state the library runs in: the object store, what has been written with
  \<open>console.error\<close> (oldest first), the property \<open>suppressErrors\<close> of the main
  module (\<open>$npm.main.suppressErrors\<close> in \<open>events.js\<close>) and the process-wide
  no-locking flag of the namespace guard.
\<close>

record state =
  heap :: "addr \<Rightarrow> obj"
  console :: "jsval list"
  suppressErrors :: jsval
  noLocking :: bool

text \<open>
  How a call ends: it returns a value or throws one. User functions live outside the
  store, in a table from the address of the function object to its code; the code gets
  the receiver (\<open>this\<close>), the arguments and the state. Handlers are synchronous
  and are taken to return or throw.
\<close>

datatype 'a completion = Return 'a | Throw jsval

type_synonym code = "jsval \<Rightarrow> jsval list \<Rightarrow> state \<Rightarrow> jsval completion \<times> state"

type_synonym fenv = "addr \<Rightarrow> code"

fun truthy :: "jsval \<Rightarrow> bool" where
  "truthy JUndefined = False"
| "truthy JNull = False"
| "truthy (JBool b) = b"
| "truthy (JNum n) = (n \<noteq> 0)"
| "truthy (JStr t) = (t \<noteq> [])"
| "truthy (JRef a) = True"

text \<open>\<open>a || b\<close>\<close>

definition js_or :: "jsval \<Rightarrow> jsval \<Rightarrow> jsval" where
  "js_or a b = (if truthy a then a else b)"

text \<open>
  Modelled from the spec: \<open>utils.isNull\<close> is not under src/; the spec and the code
  use it for "null or undefined".
\<close>

definition isNull :: "jsval \<Rightarrow> bool" where
  "isNull v = (v = JNull \<or> v = JUndefined)"

text \<open>
  \<open>v.p\<close>: the property's value, \<open>undefined\<close> when there is none. Primitives have
  none of the properties the library reads. Every read in the source is guarded
  against \<open>null\<close> and \<open>undefined\<close> (\<open>options &&\<close>, \<open>!isNull(err)\<close>,
  \<open>cn &&\<close>), so the TypeError of such a read is never reached.
\<close>

definition get_prop :: "state \<Rightarrow> jsval \<Rightarrow> string \<Rightarrow> jsval" where
  "get_prop s v p =
     (case v of
        JRef a \<Rightarrow> (case map_of (props (heap s a)) p of Some x \<Rightarrow> x | None \<Rightarrow> JUndefined)
      | _ \<Rightarrow> JUndefined)"

text \<open>\<open>p in v\<close>, for an object \<open>v\<close>\<close>

definition has_prop :: "state \<Rightarrow> jsval \<Rightarrow> string \<Rightarrow> bool" where
  "has_prop s v p =
     (case v of
        JRef a \<Rightarrow> map_of (props (heap s a)) p \<noteq> None
      | _ \<Rightarrow> False)"

text \<open>\<open>v instanceof Function\<close>: the address of the function object, when \<open>v\<close> is one\<close>

definition Function_at :: "state \<Rightarrow> jsval \<Rightarrow> addr option" where
  "Function_at s v =
     (case v of
        JRef a \<Rightarrow> (if callable (heap s a) then Some a else None)
      | _ \<Rightarrow> None)"

definition typeof :: "state \<Rightarrow> jsval \<Rightarrow> string" where
  "typeof s v =
     (case v of
        JUndefined \<Rightarrow> ''undefined''
      | JNull \<Rightarrow> ''object''
      | JBool b \<Rightarrow> ''boolean''
      | JNum n \<Rightarrow> ''number''
      | JStr t \<Rightarrow> ''string''
      | JRef a \<Rightarrow> (if callable (heap s a) then ''function'' else ''object''))"

definition console_error :: "jsval \<Rightarrow> state \<Rightarrow> state" where
  "console_error v s = s\<lparr>console := console s @ [v]\<rparr>"

section \<open>Collaborators of the library entry point\<close>

text \<open>
  What \<open>$main\<close> uses and src/ does not hold: the \<open>parse\<close> function of the
  package pg-connection-string, \<open>$npm.promise\<close>, the factory of the
  \<open>Database\<close> type and its constructor, each able to throw, and the address of the
  module-level object \<open>rootNameSpace\<close>.
\<close>

record env =
  pgCS_parse :: "string \<Rightarrow> state \<Rightarrow> jsval completion \<times> state"
  promise_init :: "jsval \<Rightarrow> state \<Rightarrow> jsval completion \<times> state"
  database_init :: "state \<Rightarrow> jsval completion \<times> state"
  new_Database :: "jsval \<Rightarrow> jsval \<Rightarrow> state \<Rightarrow> jsval completion \<times> state"
  rootNameSpace :: addr

section \<open>The event dispatcher (src/lib/events.js)\<close>

text \<open>
  \<open>options && options.name instanceof Function\<close>, the guard every dispatch function
  starts with: the handler's address when the guard holds.
\<close>

definition handler :: "state \<Rightarrow> jsval \<Rightarrow> string \<Rightarrow> addr option" where
  "handler s options name =
     (if truthy options then Function_at s (get_prop s options name) else None)"

text \<open>
  \<open>unexpected(event, err)\<close>, lines 476-490. It returns nothing; the model returns the
  state.
\<close>

definition unexpected :: "string \<Rightarrow> jsval \<Rightarrow> state \<Rightarrow> state" where
  "unexpected event err s =
     (if \<not> truthy (suppressErrors s) then
        (let s1 = console_error
                    (JStr (''Unexpected error in '' @ [CHR 0x27] @ event @ [CHR 0x27]
                           @ '' event handler.'')) s
         in if \<not> isNull err
            then console_error
                   (js_or (get_prop s1 err ''stack'') (js_or (get_prop s1 err ''message'') err)) s1
            else s1)
      else s)"

text \<open>\<open>connect(options, client)\<close>, lines 35-46\<close>

definition connect :: "fenv \<Rightarrow> jsval \<Rightarrow> jsval \<Rightarrow> state \<Rightarrow> jsval completion \<times> state" where
  "connect F options client s =
     (case handler s options ''connect'' of
        None \<Rightarrow> (Return JUndefined, s)
      | Some f \<Rightarrow>
          (case F f options [client] s of
             (Return r, s') \<Rightarrow> (Return JUndefined, s')
           | (Throw err, s') \<Rightarrow> (Return JUndefined, unexpected ''connect'' err s')))"

text \<open>\<open>disconnect(options, client)\<close>, lines 71-82\<close>

definition disconnect :: "fenv \<Rightarrow> jsval \<Rightarrow> jsval \<Rightarrow> state \<Rightarrow> jsval completion \<times> state" where
  "disconnect F options client s =
     (case handler s options ''disconnect'' of
        None \<Rightarrow> (Return JUndefined, s)
      | Some f \<Rightarrow>
          (case F f options [client] s of
             (Return r, s') \<Rightarrow> (Return JUndefined, s')
           | (Throw err, s') \<Rightarrow> (Return JUndefined, unexpected ''disconnect'' err s')))"

text \<open>
  Modelled from the spec: \<open>utils.InternalError\<close> is not under src/; the spec calls it
  a wrapped internal error that holds the value the handler threw.
\<close>

datatype internal_error = InternalError jsval

text \<open>
  \<open>query(options, context)\<close>, lines 163-173: \<open>None\<close> is the \<open>undefined\<close> the
  function returns when it falls off its end.
\<close>

definition query ::
  "fenv \<Rightarrow> jsval \<Rightarrow> jsval \<Rightarrow> state \<Rightarrow> internal_error option completion \<times> state" where
  "query F options ctx s =
     (case handler s options ''query'' of
        None \<Rightarrow> (Return None, s)
      | Some f \<Rightarrow>
          (case F f options [ctx] s of
             (Return r, s') \<Rightarrow> (Return None, s')
           | (Throw err, s') \<Rightarrow> (Return (Some (InternalError err)), s')))"

text \<open>\<open>receive(options, data, result, context)\<close>, lines 232-242\<close>

definition receive ::
  "fenv \<Rightarrow> jsval \<Rightarrow> jsval \<Rightarrow> jsval \<Rightarrow> jsval \<Rightarrow> state
     \<Rightarrow> internal_error option completion \<times> state" where
  "receive F options data result ctx s =
     (case handler s options ''receive'' of
        None \<Rightarrow> (Return None, s)
      | Some f \<Rightarrow>
          (case F f options [data, result, ctx] s of
             (Return r, s') \<Rightarrow> (Return None, s')
           | (Throw err, s') \<Rightarrow> (Return (Some (InternalError err)), s')))"

text \<open>\<open>task(options, context)\<close>, lines 276-285\<close>

definition task :: "fenv \<Rightarrow> jsval \<Rightarrow> jsval \<Rightarrow> state \<Rightarrow> jsval completion \<times> state" where
  "task F options ctx s =
     (case handler s options ''task'' of
        None \<Rightarrow> (Return JUndefined, s)
      | Some f \<Rightarrow>
          (case F f options [ctx] s of
             (Return r, s') \<Rightarrow> (Return JUndefined, s')
           | (Throw err, s') \<Rightarrow> (Return JUndefined, unexpected ''task'' err s')))"

text \<open>\<open>transact(options, context)\<close>, lines 319-328\<close>

definition transact :: "fenv \<Rightarrow> jsval \<Rightarrow> jsval \<Rightarrow> state \<Rightarrow> jsval completion \<times> state" where
  "transact F options ctx s =
     (case handler s options ''transact'' of
        None \<Rightarrow> (Return JUndefined, s)
      | Some f \<Rightarrow>
          (case F f options [ctx] s of
             (Return r, s') \<Rightarrow> (Return JUndefined, s')
           | (Throw err, s') \<Rightarrow> (Return JUndefined, unexpected ''transact'' err s')))"

text \<open>
  \<open>error(options, err, context)\<close>, lines 374-385. The catch parameter is named
  \<open>err\<close> too and shadows the argument inside the catch block only.
\<close>

definition error :: "fenv \<Rightarrow> jsval \<Rightarrow> jsval \<Rightarrow> jsval \<Rightarrow> state \<Rightarrow> jsval completion \<times> state" where
  "error F options err ctx s =
     (case handler s options ''error'' of
        None \<Rightarrow> (Return JUndefined, s)
      | Some f \<Rightarrow>
          (case F f options [err, ctx] s of
             (Return r, s') \<Rightarrow> (Return JUndefined, s')
           | (Throw err', s') \<Rightarrow> (Return JUndefined, unexpected ''error'' err' s')))"

text \<open>
  \<open>extend(options, obj)\<close>, lines 457-468: \<open>options.extend.call(obj, obj)\<close> makes
  \<open>obj\<close> the receiver.
\<close>

definition extend :: "fenv \<Rightarrow> jsval \<Rightarrow> jsval \<Rightarrow> state \<Rightarrow> jsval completion \<times> state" where
  "extend F options target s =
     (case handler s options ''extend'' of
        None \<Rightarrow> (Return JUndefined, s)
      | Some f \<Rightarrow>
          (case F f target [target] s of
             (Return r, s') \<Rightarrow> (Return JUndefined, s')
           | (Throw err, s') \<Rightarrow> (Return JUndefined, unexpected ''extend'' err s')))"

section \<open>Object literals and property writes\<close>

text \<open>An ordinary object with the given properties, and a function object.\<close>

definition plain_obj :: "(string \<times> jsval) list \<Rightarrow> obj" where
  "plain_obj ps = \<lparr>props = ps, readonly = {}, extensible = True, callable = False\<rparr>"

definition fn_obj :: obj where
  "fn_obj = \<lparr>props = [], readonly = {}, extensible = True, callable = True\<rparr>"

text \<open>Defining or overwriting a property of an object under construction.\<close>

definition put :: "string \<Rightarrow> jsval \<Rightarrow> obj \<Rightarrow> obj" where
  "put k v ob = ob\<lparr>props := AList.update k v (props ob)\<rparr>"

text \<open>
  \<open>o.k = v\<close> in strict mode, as the language defines it: a non-writable property
  and a new property of a non-extensible object make the assignment throw.
\<close>

datatype write_error = WriteProtected string | NotExtensible string

definition set_prop :: "addr \<Rightarrow> string \<Rightarrow> jsval \<Rightarrow> state \<Rightarrow> write_error + state" where
  "set_prop a k v s =
     (let ob = heap s a in
      if map_of (props ob) k \<noteq> None then
        (if k \<in> readonly ob then Inl (WriteProtected k)
         else Inr (s\<lparr>heap := (heap s)(a := put k v ob)\<rparr>))
      else if extensible ob then Inr (s\<lparr>heap := (heap s)(a := put k v ob)\<rparr>)
      else Inl (NotExtensible k))"

section \<open>The operation a veto-capable event guards\<close>

text \<open>
  Modelled from the spec: the query methods that call \<open>$events.query\<close> and
  \<open>$events.receive\<close> are not under src/. How such an operation settles: fulfilled
  with a value, rejected with a reason, or rejected with the error a dispatch function
  returned.
\<close>

datatype settled = Resolved jsval | Rejected jsval | RejectedInternal internal_error

text \<open>
  Modelled from the spec: the driver is an external collaborator; it yields the rows and
  the raw result, or fails.
\<close>

type_synonym driver = "state \<Rightarrow> (jsval \<times> jsval) completion \<times> state"

text \<open>
  Modelled from the spec: \<open>receive\<close> is fired for one or more rows; the rows are an
  array, whose \<open>length\<close> counts them.
\<close>

definition has_rows :: "state \<Rightarrow> jsval \<Rightarrow> bool" where
  "has_rows s data = (case get_prop s data ''length'' of JNum n \<Rightarrow> 0 < n | _ \<Rightarrow> False)"

text \<open>
  Modelled from the spec: the query methods are not under src/. By the spec
  \<open>query\<close> fires immediately before the driver executes the statement and
  \<open>receive\<close> after rows arrive, before they reach the caller, and the operation
  rejects with the error the dispatch function returns if it returns one.
\<close>

definition run_query :: "fenv \<Rightarrow> jsval \<Rightarrow> driver \<Rightarrow> jsval \<Rightarrow> state \<Rightarrow> settled \<times> state" where
  "run_query F options drv ctx s =
     (case query F options ctx s of
        (Throw x, s1) \<Rightarrow> (Rejected x, s1)
      | (Return (Some e), s1) \<Rightarrow> (RejectedInternal e, s1)
      | (Return None, s1) \<Rightarrow>
          (case drv s1 of
             (Throw x, s2) \<Rightarrow> (Rejected x, s2)
           | (Return (data, result), s2) \<Rightarrow>
               if has_rows s2 data then
                 (case receive F options data result ctx s2 of
                    (Throw x, s3) \<Rightarrow> (Rejected x, s3)
                  | (Return (Some e), s3) \<Rightarrow> (RejectedInternal e, s3)
                  | (Return None, s3) \<Rightarrow> (Resolved data, s3))
               else (Resolved data, s2)))"

section \<open>The life of a task or transaction context\<close>

text \<open>
  Modelled from the spec: the modules that run a task or a transaction are not under
  src/; only the doc comment of \<open>events.js\<close> (lines 130-161) names the properties of
  a context. By the spec a context is built with \<open>start\<close> set and \<open>finish\<close>
  absent; \<open>tag\<close> and \<open>context\<close> (the caller's receiver) are there when the
  caller gave them.
\<close>

definition ctx_created :: "bool \<Rightarrow> jsval option \<Rightarrow> jsval option \<Rightarrow> jsval \<Rightarrow> obj" where
  "ctx_created tx tag cx t0 =
     plain_obj ([(''isTX'', JBool tx), (''start'', t0)]
                @ (case tag of Some t \<Rightarrow> [(''tag'', t)] | None \<Rightarrow> [])
                @ (case cx of Some x \<Rightarrow> [(''context'', x)] | None \<Rightarrow> []))"

text \<open>
  Modelled from the spec: completing a context is not under src/. When the operation
  settles, \<open>finish\<close>, \<open>success\<close> and \<open>result\<close> are assigned together:
  \<open>result\<close> is the resolved value of a fulfilment (\<open>Return\<close>) or the reason of a
  rejection (\<open>Throw\<close>).
\<close>

definition ctx_finished :: "jsval \<Rightarrow> jsval completion \<Rightarrow> obj \<Rightarrow> obj" where
  "ctx_finished t1 r ob =
     (case r of
        Return v \<Rightarrow> put ''result'' v (put ''success'' (JBool True) (put ''finish'' t1 ob))
      | Throw e \<Rightarrow> put ''result'' e (put ''success'' (JBool False) (put ''finish'' t1 ob)))"

text \<open>Modelled from the spec: the completion of the context at address \<open>c\<close>, in the store.\<close>

definition settle :: "addr \<Rightarrow> jsval \<Rightarrow> jsval completion \<Rightarrow> state \<Rightarrow> state" where
  "settle c t1 r s = s\<lparr>heap := (heap s)(c := ctx_finished t1 r (heap s c))\<rparr>"

text \<open>
  Modelled from the spec: a notification goes to \<open>transact\<close> for a transaction and to
  \<open>task\<close> for a task; the caller of these two dispatch functions is not under src/.
\<close>

definition notify :: "fenv \<Rightarrow> jsval \<Rightarrow> bool \<Rightarrow> jsval \<Rightarrow> state \<Rightarrow> jsval completion \<times> state" where
  "notify F options tx e s = (if tx then transact F options e s else task F options e s)"

text \<open>
  Modelled from the spec: the creation of a task or transaction is not under src/. The
  new context is written at \<open>c\<close> and the event context object the handlers get, whose
  property \<open>ctx\<close> is the context, at \<open>e\<close>.
\<close>

definition started ::
  "bool \<Rightarrow> jsval option \<Rightarrow> jsval option \<Rightarrow> addr \<Rightarrow> addr \<Rightarrow> jsval \<Rightarrow> state \<Rightarrow> state" where
  "started tx tag cx c e t0 s =
     s\<lparr>heap := (heap s)(c := ctx_created tx tag cx t0, e := plain_obj [(''ctx'', JRef c)])\<rparr>"

text \<open>
  Modelled from the spec: running a task or transaction is not under src/. The context
  is created and fired as the start notification; the operation \<open>body\<close> runs and is
  fulfilled or rejected; the context is completed and the finish notification follows
  at once. \<open>t0\<close> and \<open>t1\<close> are the clock readings.
\<close>

definition run_task ::
  "fenv \<Rightarrow> jsval \<Rightarrow> bool \<Rightarrow> jsval option \<Rightarrow> jsval option \<Rightarrow> addr \<Rightarrow> addr \<Rightarrow> jsval \<Rightarrow> jsval
     \<Rightarrow> (state \<Rightarrow> jsval completion \<times> state) \<Rightarrow> state \<Rightarrow> jsval completion \<times> state" where
  "run_task F options tx tag cx c e t0 t1 body s =
     (let s1 = started tx tag cx c e t0 s;
          s2 = snd (notify F options tx (JRef e) s1);
          (r, s3) = body s2;
          s4 = settle c t1 r s3;
          s5 = snd (notify F options tx (JRef e) s4)
      in (r, s5))"

section \<open>The protocol namespace guard\<close>

text \<open>
  Modelled from the spec: \<open>utils.lock\<close> is not under src/. By the spec it makes the
  existing properties of a namespace object non-writable and non-configurable.
\<close>

definition lock_props :: "obj \<Rightarrow> obj" where
  "lock_props ob = ob\<lparr>readonly := readonly ob \<union> fst ` set (props ob)\<rparr>"

text \<open>Modelled from the spec: the same, for the object at an address of the store.\<close>

definition lock_at :: "addr \<Rightarrow> state \<Rightarrow> state" where
  "lock_at a s = s\<lparr>heap := (heap s)(a := lock_props (heap s a))\<rparr>"

text \<open>
  Modelled from the spec: the deep lock of \<open>utils.lock\<close>, which is not under src/,
  locks the object and then, recursively, the objects its properties hold. The recursion
  follows the property values and need not end, so it is bounded by a depth \<open>n\<close>:
  \<open>None\<close> means the bound was reached.
\<close>

primrec lock_walk :: "nat \<Rightarrow> addr \<Rightarrow> state \<Rightarrow> state option" where
  "lock_walk 0 a s = None"
| "lock_walk (Suc n) a s =
     fold (\<lambda>v r. case r of
                    None \<Rightarrow> None
                  | Some s' \<Rightarrow> (case v of JRef b \<Rightarrow> lock_walk n b s' | _ \<Rightarrow> Some s'))
          (map snd (props (heap s a)))
          (Some (lock_at a s))"

text \<open>
  Every object of a set locked at once: what a deep lock does is described by the set of
  objects it reaches.
\<close>

definition lock_all :: "addr set \<Rightarrow> state \<Rightarrow> state" where
  "lock_all A s = s\<lparr>heap := (\<lambda>x. if x \<in> A then lock_props (heap s x) else heap s x)\<rparr>"

text \<open>
  Modelled from the spec: \<open>lock(target)\<close>, the shallow lock of \<open>utils.lock\<close>, which
  is not under src/. By the spec a process-wide no-locking flag disables every locking
  call.
\<close>

definition lock :: "jsval \<Rightarrow> state \<Rightarrow> state" where
  "lock target s =
     (if noLocking s then s
      else (case target of JRef a \<Rightarrow> lock_at a s | _ \<Rightarrow> s))"

text \<open>
  Modelled from the spec: \<open>lock(target, true)\<close>, the deep lock of \<open>utils.lock\<close>,
  under the same flag.
\<close>

definition lock_deep :: "nat \<Rightarrow> jsval \<Rightarrow> state \<Rightarrow> state option" where
  "lock_deep n target s =
     (if noLocking s then Some s
      else (case target of JRef a \<Rightarrow> lock_walk n a s | _ \<Rightarrow> Some s))"

text \<open>
  Modelled from the spec: \<open>utils.addProperties\<close> is not under src/;
  \<open>addProperties(target, source)\<close> installs the built-in members, those of
  \<open>source\<close>, on \<open>target\<close>.
\<close>

definition addProperties :: "addr \<Rightarrow> addr \<Rightarrow> state \<Rightarrow> state" where
  "addProperties target source s =
     s\<lparr>heap := (heap s)(target := fold (\<lambda>(k, v). put k v) (props (heap s source)) (heap s target))\<rparr>"

section \<open>Library initialization (src/lib/index.js)\<close>

text \<open>
  What these functions throw: a TypeError the library creates, with its message, or
  whatever a collaborator threw.
\<close>

datatype exn = TypeError string | Raised jsval

text \<open>
  Lines 83-100 of \<open>$main\<close>: the value of the local \<open>invalidInit\<close> after the
  checks, or what they throw. \<open>typeof options === 'string'\<close> is the case
  \<open>JStr\<close>.
\<close>

definition invalidInit :: "env \<Rightarrow> jsval \<Rightarrow> state \<Rightarrow> (exn + jsval) \<times> state" where
  "invalidInit E options s =
     (if isNull options then (Inr JUndefined, s)
      else
        (case (case options of
                 JStr str \<Rightarrow>
                   (case pgCS_parse E str s of
                      (Throw x, s1) \<Rightarrow> (Inl (Raised x), s1)
                    | (Return cn, s1) \<Rightarrow>
                        (Inr (if truthy cn then JBool (get_prop s1 cn ''database'' \<noteq> options)
                              else cn), s1))
               | _ \<Rightarrow> (Inr JUndefined, s)) of
           (Inl x, s1) \<Rightarrow> (Inl x, s1)
         | (Inr flag, s1) \<Rightarrow>
             if typeof s1 options = ''object''
             then (Inr (JBool (has_prop s1 options ''host'' \<or> has_prop s1 options ''database'')), s1)
             else if \<not> truthy flag
             then (Inl (TypeError ''Invalid initialization options.''), s1)
             else (Inr flag, s1)))"

text \<open>
  \<open>$main(options)\<close>, lines 81-133; \<open>i\<close> is the address of the new function
  \<open>inst\<close>.
\<close>

definition main :: "env \<Rightarrow> addr \<Rightarrow> jsval \<Rightarrow> state \<Rightarrow> (exn + jsval) \<times> state" where
  "main E i options s =
     (case invalidInit E options s of
        (Inl x, s1) \<Rightarrow> (Inl x, s1)
      | (Inr flag, s1) \<Rightarrow>
          if truthy flag
          then (Inl (TypeError ''Invalid library initialization: must initialize the library before creating a database object.''), s1)
          else
            (case promise_init E (if truthy options then get_prop s1 options ''promiseLib''
                                  else JNull) s1 of
               (Throw x, s2) \<Rightarrow> (Inl (Raised x), s2)
             | (Return u, s2) \<Rightarrow>
                 (case database_init E s2 of
                    (Throw x, s3) \<Rightarrow> (Inl (Raised x), s3)
                  | (Return db, s3) \<Rightarrow>
                      (Inr (JRef i),
                       lock (JRef i)
                         (addProperties i (rootNameSpace E)
                            (s3\<lparr>heap := (heap s3)(i := fn_obj)\<rparr>))))))"

text \<open>The function \<open>inst\<close> that \<open>$main(options)\<close> returns, lines 120-127\<close>

definition inst :: "env \<Rightarrow> jsval \<Rightarrow> jsval \<Rightarrow> state \<Rightarrow> (exn + jsval) \<times> state" where
  "inst E options cn s =
     (let t = typeof s cn in
      if truthy cn \<and> (t = ''string'' \<or> t = ''object'')
      then (case new_Database E cn options s of
              (Throw x, s1) \<Rightarrow> (Inl (Raised x), s1)
            | (Return db, s1) \<Rightarrow> (Inr db, s1))
      else (Inl (TypeError ''Invalid connection details.''), s))"

section \<open>Example inputs\<close>

text \<open>
  A small store to run the functions on. Objects 1, 5, 6 and 9 are configurations:
  every handler of 1 is function 10, which throws the string \<open>boom\<close>; every
  handler of 5 is function 12, which writes its receiver and its arguments to the
  console and returns; 6 has only a \<open>receive\<close> handler, function 10; 9 has only a
  \<open>receive\<close> handler, function 13, which marks the first row of the data it is given.
  Object 4 is a configuration whose \<open>query\<close> option is a number. Object 2 is an
  error with a message and no stack, object 3 an error with both. Object 7 is an array
  holding the one row 8. The driver of the examples leaves a mark on the console and
  yields that array. Object 17 is a configuration whose \<open>task\<close> and
  \<open>transact\<close> handlers are function 14, which writes the \<open>finish\<close>,
  \<open>success\<close> and \<open>result\<close> of the context it is notified of to the console.
  Object 15 is a configuration with \<open>noLocking\<close> set, object 16 a connection
  object. Object 20 stands for \<open>rootNameSpace\<close>; its member \<open>as\<close>, object
  22, has a nested object 31.
\<close>

definition ex_heap :: "addr \<Rightarrow> obj" where
  "ex_heap =
     (\<lambda>a. plain_obj [])
       (1 := plain_obj [(''connect'', JRef 10), (''disconnect'', JRef 10), (''query'', JRef 10),
                        (''receive'', JRef 10), (''task'', JRef 10), (''transact'', JRef 10),
                        (''error'', JRef 10), (''extend'', JRef 10)],
        2 := plain_obj [(''message'', JStr ''bad'')],
        3 := plain_obj [(''stack'', JStr ''at f''), (''message'', JStr ''bad'')],
        4 := plain_obj [(''query'', JNum 5)],
        5 := plain_obj [(''connect'', JRef 12), (''disconnect'', JRef 12), (''query'', JRef 12),
                        (''receive'', JRef 12), (''task'', JRef 12), (''transact'', JRef 12),
                        (''error'', JRef 12), (''extend'', JRef 12)],
        6 := plain_obj [(''receive'', JRef 10)],
        7 := plain_obj [(''0'', JRef 8), (''length'', JNum 1)],
        8 := plain_obj [(''id'', JNum 1)],
        9 := plain_obj [(''receive'', JRef 13)],
        10 := fn_obj, 12 := fn_obj, 13 := fn_obj, 14 := fn_obj,
        15 := plain_obj [(''noLocking'', JBool True)],
        16 := plain_obj [(''host'', JStr ''localhost'')],
        17 := plain_obj [(''task'', JRef 14), (''transact'', JRef 14)],
        20 := plain_obj [(''end'', JRef 21), (''as'', JRef 22), (''pg'', JRef 23),
                         (''txMode'', JRef 29)],
        21 := fn_obj,
        22 := plain_obj [(''csv'', JRef 21), (''more'', JRef 31)],
        31 := plain_obj [(''x'', JNum 1)])"

definition ex_state :: state where
  "ex_state = \<lparr>heap = ex_heap, console = [], suppressErrors = JUndefined, noLocking = False\<rparr>"

definition ex_fenv :: fenv where
  "ex_fenv f this args s =
     (if f = 10 then (Throw (JStr ''boom''), s)
      else if f = 13 then
        (case get_prop s (hd args) ''0'' of
           JRef r \<Rightarrow> (Return JUndefined, s\<lparr>heap := (heap s)(r := put ''seen'' (JBool True) (heap s r))\<rparr>)
         | _ \<Rightarrow> (Return JUndefined, s))
      else if f = 14 then
        (let c = get_prop s (hd args) ''ctx'' in
         (Return JUndefined,
          s\<lparr>console := console s @ [get_prop s c ''finish'', get_prop s c ''success'',
                                          get_prop s c ''result'']\<rparr>))
      else (Return (JNum 7), s\<lparr>console := console s @ this # args\<rparr>))"

definition ex_driver :: driver where
  "ex_driver s = (Return (JRef 7, JUndefined), s\<lparr>console := console s @ [JStr ''driver'']\<rparr>)"

definition ex_env :: env where
  "ex_env =
     \<lparr>pgCS_parse = (\<lambda>str s. (Return JNull, s)),
      promise_init = (\<lambda>lib s. (Return JUndefined, s)),
      database_init = (\<lambda>s. (Return JUndefined, s)),
      new_Database = (\<lambda>cn opts s. (Return (JRef 40), s)),
      rootNameSpace = 20\<rparr>"

section \<open>Reading the store\<close>

lemma get_prop_console [simp]: "get_prop (s\<lparr>console := c\<rparr>) v p = get_prop s v p"
  by (cases v) (simp_all add: get_prop_def)

lemma get_prop_console_error [simp]: "get_prop (console_error x s) v p = get_prop s v p"
  by (simp add: console_error_def)

lemma heap_unexpected [simp]: "heap (unexpected event err s) = heap s"
  by (simp add: unexpected_def console_error_def Let_def)

lemma handler_absent:
  "isNull options \<or> \<not> has_prop s options name \<or> Function_at s (get_prop s options name) = None
   \<Longrightarrow> handler s options name = None"
  by (cases options) (auto simp: handler_def isNull_def has_prop_def get_prop_def Function_at_def)

section \<open>The diagnostic sink\<close>

text \<open>
  C8. \<open>unexpected(event, err)\<close> writes nothing when \<open>suppressErrors\<close> is set.
  Otherwise it writes the line naming the event and, unless \<open>err\<close> is null or
  undefined, one more value: \<open>err.stack\<close> when that is truthy, else \<open>err.message\<close>
  when that is truthy, else \<open>err\<close> itself. Nothing but the console changes.
\<close>

theorem unexpected_writes:
  "(truthy (suppressErrors s) \<longrightarrow> unexpected event err s = s)
   \<and> (\<not> truthy (suppressErrors s) \<and> isNull err \<longrightarrow>
        unexpected event err s =
          s\<lparr>console := console s @
             [JStr (''Unexpected error in '' @ [CHR 0x27] @ event @ [CHR 0x27] @ '' event handler.'')]\<rparr>)
   \<and> (\<not> truthy (suppressErrors s) \<and> \<not> isNull err \<longrightarrow>
        unexpected event err s =
          s\<lparr>console := console s @
             [JStr (''Unexpected error in '' @ [CHR 0x27] @ event @ [CHR 0x27] @ '' event handler.''),
              if truthy (get_prop s err ''stack'') then get_prop s err ''stack''
              else if truthy (get_prop s err ''message'') then get_prop s err ''message''
              else err]\<rparr>)"
  by (simp add: unexpected_def js_or_def Let_def) (simp add: console_error_def)

theorem unexpected_writes_witness:
  "unexpected ''task'' (JRef 2) ex_state =
     ex_state\<lparr>console := [JStr ''Unexpected error in 'task' event handler.'', JStr ''bad'']\<rparr>
   \<and> unexpected ''task'' (JRef 3) ex_state =
     ex_state\<lparr>console := [JStr ''Unexpected error in 'task' event handler.'', JStr ''at f'']\<rparr>
   \<and> unexpected ''task'' (JStr ''boom'') ex_state =
     ex_state\<lparr>console := [JStr ''Unexpected error in 'task' event handler.'', JStr ''boom'']\<rparr>
   \<and> unexpected ''task'' JNull ex_state =
     ex_state\<lparr>console := [JStr ''Unexpected error in 'task' event handler.'']\<rparr>
   \<and> unexpected ''task'' (JRef 2) (ex_state\<lparr>suppressErrors := JBool True\<rparr>) =
     ex_state\<lparr>suppressErrors := JBool True\<rparr>"
  using unexpected_writes [of ex_state "''task''" "JRef 2"]
        unexpected_writes [of ex_state "''task''" "JRef 3"]
        unexpected_writes [of ex_state "''task''" "JStr ''boom''"]
        unexpected_writes [of ex_state "''task''" JNull]
        unexpected_writes [of "ex_state\<lparr>suppressErrors := JBool True\<rparr>" "''task''" "JRef 2"]
  by (simp add: ex_state_def ex_heap_def plain_obj_def get_prop_def isNull_def)

section \<open>The veto-capable events\<close>

text \<open>
  C1. When the \<open>query\<close> handler throws \<open>v\<close>, \<open>$events.query\<close> returns an
  InternalError holding \<open>v\<close>, and the operation is rejected with it in the state the
  handler left, whatever the driver is: the driver is not run. When the handler
  returns, or none is configured, \<open>$events.query\<close> returns nothing. The same holds
  for \<open>receive\<close>, which fires once the driver has delivered rows: the operation is
  rejected with the InternalError in the state the handler left.
\<close>

theorem veto_events:
  "(handler s options ''query'' = Some f \<and> F f options [ctx] s = (Throw v, s') \<longrightarrow>
      query F options ctx s = (Return (Some (InternalError v)), s')
      \<and> run_query F options drv ctx s = (RejectedInternal (InternalError v), s'))
   \<and> (handler s options ''query'' = Some f \<and> F f options [ctx] s = (Return r, s') \<longrightarrow>
      query F options ctx s = (Return None, s'))
   \<and> (handler s options ''query'' = None \<longrightarrow> query F options ctx s = (Return None, s))
   \<and> (handler s options ''receive'' = Some f \<and> F f options [data, result, ctx] s = (Throw v, s') \<longrightarrow>
      receive F options data result ctx s = (Return (Some (InternalError v)), s'))
   \<and> (handler s options ''receive'' = Some f \<and> F f options [data, result, ctx] s = (Return r, s') \<longrightarrow>
      receive F options data result ctx s = (Return None, s'))
   \<and> (handler s options ''receive'' = None \<longrightarrow> receive F options data result ctx s = (Return None, s))
   \<and> (query F options ctx s = (Return None, sq) \<and> drv sq = (Return (data, result), sd)
       \<and> has_rows sd data \<and> handler sd options ''receive'' = Some f
       \<and> F f options [data, result, ctx] sd = (Throw v, sr) \<longrightarrow>
      run_query F options drv ctx s = (RejectedInternal (InternalError v), sr))"
  by (simp add: query_def receive_def run_query_def)

theorem veto_events_witness:
  "query ex_fenv (JRef 1) JNull ex_state = (Return (Some (InternalError (JStr ''boom''))), ex_state)
   \<and> run_query ex_fenv (JRef 1) ex_driver JNull ex_state =
       (RejectedInternal (InternalError (JStr ''boom'')), ex_state)
   \<and> query ex_fenv (JRef 5) JNull ex_state =
       (Return None, ex_state\<lparr>console := [JRef 5, JNull]\<rparr>)
   \<and> query ex_fenv (JRef 4) JNull ex_state = (Return None, ex_state)
   \<and> receive ex_fenv (JRef 1) (JRef 7) JUndefined JNull ex_state =
       (Return (Some (InternalError (JStr ''boom''))), ex_state)
   \<and> receive ex_fenv (JRef 5) (JRef 7) JUndefined JNull ex_state =
       (Return None, ex_state\<lparr>console := [JRef 5, JRef 7, JUndefined, JNull]\<rparr>)
   \<and> receive ex_fenv (JRef 4) (JRef 7) JUndefined JNull ex_state = (Return None, ex_state)
   \<and> run_query ex_fenv (JRef 6) ex_driver JNull ex_state =
       (RejectedInternal (InternalError (JStr ''boom'')), ex_state\<lparr>console := [JStr ''driver'']\<rparr>)"
  using veto_events [where s = ex_state and options = "JRef 1" and f = 10 and F = ex_fenv
          and ctx = JNull and v = "JStr ''boom''" and s' = ex_state and drv = ex_driver
          and data = "JRef 7" and result = JUndefined]
        veto_events [where s = ex_state and options = "JRef 5" and f = 12 and F = ex_fenv
          and ctx = JNull and r = "JNum 7" and s' = "ex_state\<lparr>console := [JRef 5, JNull]\<rparr>"]
        veto_events [where s = ex_state and options = "JRef 5" and f = 12 and F = ex_fenv
          and ctx = JNull and r = "JNum 7" and data = "JRef 7" and result = JUndefined
          and s' = "ex_state\<lparr>console := [JRef 5, JRef 7, JUndefined, JNull]\<rparr>"]
        veto_events [where s = ex_state and options = "JRef 4" and F = ex_fenv
          and ctx = JNull and data = "JRef 7" and result = JUndefined]
        veto_events [where s = ex_state and options = "JRef 6" and f = 10 and F = ex_fenv
          and ctx = JNull and v = "JStr ''boom''" and drv = ex_driver
          and data = "JRef 7" and result = JUndefined and sq = ex_state
          and sd = "ex_state\<lparr>console := [JStr ''driver'']\<rparr>"
          and sr = "ex_state\<lparr>console := [JStr ''driver'']\<rparr>"]
  by (simp add: handler_def ex_state_def ex_heap_def get_prop_def Function_at_def plain_obj_def
       fn_obj_def ex_fenv_def ex_driver_def has_rows_def)

section \<open>The fire-and-forget events\<close>

text \<open>
  C2. When the handler of \<open>connect\<close>, \<open>disconnect\<close>, \<open>task\<close>,
  \<open>transact\<close>, \<open>error\<close> or \<open>extend\<close> throws \<open>v\<close>, the dispatch function
  does not throw: it returns \<open>undefined\<close>, and the state it leaves is the one the
  handler left after a single call of \<open>unexpected\<close> with the event's name and
  \<open>v\<close>.
\<close>

theorem fire_and_forget_isolated:
  "(handler s options ''connect'' = Some f \<and> F f options [client] s = (Throw v, s') \<longrightarrow>
      connect F options client s = (Return JUndefined, unexpected ''connect'' v s'))
   \<and> (handler s options ''disconnect'' = Some f \<and> F f options [client] s = (Throw v, s') \<longrightarrow>
      disconnect F options client s = (Return JUndefined, unexpected ''disconnect'' v s'))
   \<and> (handler s options ''task'' = Some f \<and> F f options [ctx] s = (Throw v, s') \<longrightarrow>
      task F options ctx s = (Return JUndefined, unexpected ''task'' v s'))
   \<and> (handler s options ''transact'' = Some f \<and> F f options [ctx] s = (Throw v, s') \<longrightarrow>
      transact F options ctx s = (Return JUndefined, unexpected ''transact'' v s'))
   \<and> (handler s options ''error'' = Some f \<and> F f options [err, ctx] s = (Throw v, s') \<longrightarrow>
      error F options err ctx s = (Return JUndefined, unexpected ''error'' v s'))
   \<and> (handler s options ''extend'' = Some f \<and> F f target [target] s = (Throw v, s') \<longrightarrow>
      extend F options target s = (Return JUndefined, unexpected ''extend'' v s'))"
  by (simp add: connect_def disconnect_def task_def transact_def error_def extend_def)

theorem fire_and_forget_isolated_witness:
  "connect ex_fenv (JRef 1) JNull ex_state =
     (Return JUndefined,
      ex_state\<lparr>console := [JStr ''Unexpected error in 'connect' event handler.'', JStr ''boom'']\<rparr>)
   \<and> disconnect ex_fenv (JRef 1) JNull ex_state =
     (Return JUndefined,
      ex_state\<lparr>console := [JStr ''Unexpected error in 'disconnect' event handler.'', JStr ''boom'']\<rparr>)
   \<and> task ex_fenv (JRef 1) JNull ex_state =
     (Return JUndefined,
      ex_state\<lparr>console := [JStr ''Unexpected error in 'task' event handler.'', JStr ''boom'']\<rparr>)
   \<and> transact ex_fenv (JRef 1) JNull ex_state =
     (Return JUndefined,
      ex_state\<lparr>console := [JStr ''Unexpected error in 'transact' event handler.'', JStr ''boom'']\<rparr>)
   \<and> error ex_fenv (JRef 1) (JRef 2) JNull ex_state =
     (Return JUndefined,
      ex_state\<lparr>console := [JStr ''Unexpected error in 'error' event handler.'', JStr ''boom'']\<rparr>)
   \<and> extend ex_fenv (JRef 1) (JRef 2) ex_state =
     (Return JUndefined,
      ex_state\<lparr>console := [JStr ''Unexpected error in 'extend' event handler.'', JStr ''boom'']\<rparr>)"
  using fire_and_forget_isolated [of ex_state "JRef 1" 10 ex_fenv JNull "JStr ''boom''" ex_state JNull "JRef 2" "JRef 2"]
  by (simp add: handler_def ex_state_def ex_heap_def get_prop_def Function_at_def plain_obj_def fn_obj_def
       ex_fenv_def unexpected_def console_error_def js_or_def isNull_def)

text \<open>
  C5. \<open>$events.error\<close> returns \<open>undefined\<close> whether or not a handler is
  configured and whether it returns or throws. It has nothing to hand back in place of
  \<open>err\<close>, and it writes nothing to the store itself: the store it leaves is the one
  the handler left. What the handler throws goes to \<open>unexpected\<close> under the name
  \<open>error\<close>.
\<close>

theorem error_event_leaves_error:
  "(handler s options ''error'' = None \<longrightarrow>
      error F options err ctx s = (Return JUndefined, s))
   \<and> (handler s options ''error'' = Some f \<and> F f options [err, ctx] s = (Return r, s') \<longrightarrow>
      error F options err ctx s = (Return JUndefined, s'))
   \<and> (handler s options ''error'' = Some f \<and> F f options [err, ctx] s = (Throw v, s') \<longrightarrow>
      error F options err ctx s = (Return JUndefined, unexpected ''error'' v s')
      \<and> heap (unexpected ''error'' v s') = heap s')"
  by (simp add: error_def)

theorem error_event_leaves_error_witness:
  "error ex_fenv (JRef 4) (JRef 2) JNull ex_state = (Return JUndefined, ex_state)
   \<and> error ex_fenv (JRef 5) (JRef 2) JNull ex_state =
       (Return JUndefined, ex_state\<lparr>console := [JRef 5, JRef 2, JNull]\<rparr>)
   \<and> error ex_fenv (JRef 1) (JRef 2) JNull ex_state =
       (Return JUndefined, unexpected ''error'' (JStr ''boom'') ex_state)
   \<and> heap (unexpected ''error'' (JStr ''boom'') ex_state) = heap ex_state
   \<and> heap ex_state 2 = plain_obj [(''message'', JStr ''bad'')]"
  using error_event_leaves_error [where s = ex_state and options = "JRef 4" and F = ex_fenv
          and err = "JRef 2" and ctx = JNull]
        error_event_leaves_error [where s = ex_state and options = "JRef 5" and F = ex_fenv
          and err = "JRef 2" and ctx = JNull and f = 12 and r = "JNum 7"
          and s' = "ex_state\<lparr>console := [JRef 5, JRef 2, JNull]\<rparr>"]
        error_event_leaves_error [where s = ex_state and options = "JRef 1" and F = ex_fenv
          and err = "JRef 2" and ctx = JNull and f = 10 and v = "JStr ''boom''" and s' = ex_state]
  by (simp add: handler_def ex_state_def ex_heap_def get_prop_def Function_at_def plain_obj_def
       fn_obj_def ex_fenv_def)

text \<open>
  C6. The \<open>extend\<close> handler is called with \<open>target\<close> as its receiver and as its
  only argument: what \<open>$events.extend\<close> does is fixed by what the handler does on
  that receiver and that argument list.
\<close>

theorem extend_receiver_is_argument:
  "handler s options ''extend'' = Some f \<and> F f target [target] s = (c, s') \<longrightarrow>
     extend F options target s =
       (Return JUndefined, case c of Return r \<Rightarrow> s' | Throw v \<Rightarrow> unexpected ''extend'' v s')"
  by (cases c) (simp_all add: extend_def)

theorem extend_receiver_is_argument_witness:
  "extend ex_fenv (JRef 5) (JRef 2) ex_state =
     (Return JUndefined, ex_state\<lparr>console := [JRef 2, JRef 2]\<rparr>)"
  using extend_receiver_is_argument [where s = ex_state and options = "JRef 5" and F = ex_fenv
          and target = "JRef 2" and f = 12 and c = "Return (JNum 7)"
          and s' = "ex_state\<lparr>console := [JRef 2, JRef 2]\<rparr>"]
  by (simp add: handler_def ex_state_def ex_heap_def get_prop_def Function_at_def plain_obj_def
       fn_obj_def ex_fenv_def)

section \<open>Dispatch without a handler\<close>

text \<open>
  C7. When the configuration is null or undefined, or the option of the event is
  absent or is not a function, the guard of the dispatch function fails; and when the
  guard fails, each of the eight dispatch functions returns \<open>undefined\<close> (no error,
  for \<open>query\<close> and \<open>receive\<close>) and leaves the state as it was, whatever the
  functions of the program are.
\<close>

theorem no_handler_no_effect:
  "(isNull options \<or> \<not> has_prop s options name \<or> Function_at s (get_prop s options name) = None
      \<longrightarrow> handler s options name = None)
   \<and> (handler s options ''connect'' = None \<longrightarrow> connect F options client s = (Return JUndefined, s))
   \<and> (handler s options ''disconnect'' = None \<longrightarrow>
        disconnect F options client s = (Return JUndefined, s))
   \<and> (handler s options ''query'' = None \<longrightarrow> query F options ctx s = (Return None, s))
   \<and> (handler s options ''receive'' = None \<longrightarrow>
        receive F options data result ctx s = (Return None, s))
   \<and> (handler s options ''task'' = None \<longrightarrow> task F options ctx s = (Return JUndefined, s))
   \<and> (handler s options ''transact'' = None \<longrightarrow> transact F options ctx s = (Return JUndefined, s))
   \<and> (handler s options ''error'' = None \<longrightarrow> error F options err ctx s = (Return JUndefined, s))
   \<and> (handler s options ''extend'' = None \<longrightarrow> extend F options target s = (Return JUndefined, s))"
  using handler_absent [of options s name]
  by (simp add: connect_def disconnect_def query_def receive_def task_def transact_def error_def
       extend_def)

theorem no_handler_no_effect_witness:
  "connect ex_fenv JNull JNull ex_state = (Return JUndefined, ex_state)
   \<and> disconnect ex_fenv JUndefined JNull ex_state = (Return JUndefined, ex_state)
   \<and> query ex_fenv (JRef 4) JNull ex_state = (Return None, ex_state)
   \<and> receive ex_fenv (JRef 4) (JRef 7) JUndefined JNull ex_state = (Return None, ex_state)
   \<and> task ex_fenv (JRef 4) JNull ex_state = (Return JUndefined, ex_state)
   \<and> transact ex_fenv (JStr ''x'') JNull ex_state = (Return JUndefined, ex_state)
   \<and> error ex_fenv (JRef 4) (JRef 2) JNull ex_state = (Return JUndefined, ex_state)
   \<and> extend ex_fenv (JRef 4) (JRef 2) ex_state = (Return JUndefined, ex_state)"
  using no_handler_no_effect [where options = JNull and s = ex_state and name = "''connect''"
          and F = ex_fenv and client = JNull]
        no_handler_no_effect [where options = JUndefined and s = ex_state and name = "''disconnect''"
          and F = ex_fenv and client = JNull]
        no_handler_no_effect [where options = "JRef 4" and s = ex_state and name = "''query''"
          and F = ex_fenv and ctx = JNull and data = "JRef 7" and result = JUndefined
          and err = "JRef 2" and target = "JRef 2"]
        no_handler_no_effect [where options = "JStr ''x''" and s = ex_state and name = "''transact''"
          and F = ex_fenv and ctx = JNull]
  by (simp add: handler_def ex_state_def ex_heap_def get_prop_def Function_at_def plain_obj_def
       fn_obj_def isNull_def has_prop_def)

section \<open>The data of a receive event\<close>

text \<open>
  C9. \<open>$events.receive\<close> calls the handler with the \<open>data\<close>, \<open>result\<close> and
  context values it was given, the same references, and the state it leaves is exactly
  the state the handler left: what the handler wrote into the rows is there for the
  caller, and the dispatcher writes nothing of its own. Without a handler the state is
  unchanged.
\<close>

theorem receive_passes_data_through:
  "(handler s options ''receive'' = Some f \<and> F f options [data, result, ctx] s = (c, s') \<longrightarrow>
      receive F options data result ctx s =
        (Return (case c of Return r \<Rightarrow> None | Throw v \<Rightarrow> Some (InternalError v)), s'))
   \<and> (handler s options ''receive'' = None \<longrightarrow>
        receive F options data result ctx s = (Return None, s))"
  by (cases c) (simp_all add: receive_def)

theorem receive_passes_data_through_witness:
  "receive ex_fenv (JRef 9) (JRef 7) JUndefined JNull ex_state =
     (Return None, ex_state\<lparr>heap := (heap ex_state)(8 := put ''seen'' (JBool True) (heap ex_state 8))\<rparr>)
   \<and> get_prop (snd (receive ex_fenv (JRef 9) (JRef 7) JUndefined JNull ex_state)) (JRef 8) ''seen''
       = JBool True
   \<and> get_prop ex_state (JRef 8) ''seen'' = JUndefined
   \<and> receive ex_fenv (JRef 5) (JRef 7) (JRef 3) (JRef 2) ex_state =
       (Return None, ex_state\<lparr>console := [JRef 5, JRef 7, JRef 3, JRef 2]\<rparr>)
   \<and> receive ex_fenv (JRef 4) (JRef 7) JUndefined JNull ex_state = (Return None, ex_state)"
  using receive_passes_data_through [where s = ex_state and options = "JRef 9" and F = ex_fenv
          and data = "JRef 7" and result = JUndefined and ctx = JNull and f = 13
          and c = "Return JUndefined"
          and s' = "ex_state\<lparr>heap := (heap ex_state)(8 := put ''seen'' (JBool True) (heap ex_state 8))\<rparr>"]
        receive_passes_data_through [where s = ex_state and options = "JRef 5" and F = ex_fenv
          and data = "JRef 7" and result = "JRef 3" and ctx = "JRef 2" and f = 12
          and c = "Return (JNum 7)"
          and s' = "ex_state\<lparr>console := [JRef 5, JRef 7, JRef 3, JRef 2]\<rparr>"]
        receive_passes_data_through [where s = ex_state and options = "JRef 4" and F = ex_fenv
          and data = "JRef 7" and result = JUndefined and ctx = JNull]
  by (simp add: handler_def ex_state_def ex_heap_def get_prop_def Function_at_def plain_obj_def
       fn_obj_def ex_fenv_def put_def)

section \<open>The checks of the entry point\<close>

text \<open>
  C10. \<open>$main(options)\<close> throws the TypeError \<open>Invalid initialization options.\<close>
  for every \<open>options\<close> that is not null or undefined and whose type is neither
  \<open>'object'\<close> nor \<open>'string'\<close>, and the TypeError about initializing the library
  first for every object that has a \<open>host\<close> or a \<open>database\<close> property; the
  function it returns throws the TypeError \<open>Invalid connection details.\<close> for every
  argument that is falsy or is neither a string nor an object. None of them changes the
  state before throwing.
\<close>

theorem main_rejects_bad_arguments:
  "(\<not> isNull options \<and> typeof s options \<noteq> ''object'' \<and> typeof s options \<noteq> ''string'' \<longrightarrow>
      main E i options s = (Inl (TypeError ''Invalid initialization options.''), s))
   \<and> (\<not> isNull options \<and> typeof s options = ''object''
       \<and> (has_prop s options ''host'' \<or> has_prop s options ''database'') \<longrightarrow>
      main E i options s =
        (Inl (TypeError ''Invalid library initialization: must initialize the library before creating a database object.''), s))
   \<and> (\<not> truthy cn \<or> (typeof s cn \<noteq> ''string'' \<and> typeof s cn \<noteq> ''object'') \<longrightarrow>
      inst E options cn s = (Inl (TypeError ''Invalid connection details.''), s))"
  by (cases options) (auto simp: main_def invalidInit_def inst_def typeof_def Let_def isNull_def)

theorem main_rejects_bad_arguments_witness:
  "main ex_env 30 (JNum 5) ex_state = (Inl (TypeError ''Invalid initialization options.''), ex_state)
   \<and> main ex_env 30 (JRef 10) ex_state = (Inl (TypeError ''Invalid initialization options.''), ex_state)
   \<and> main ex_env 30 (JRef 16) ex_state =
       (Inl (TypeError ''Invalid library initialization: must initialize the library before creating a database object.''), ex_state)
   \<and> inst ex_env JUndefined JUndefined ex_state = (Inl (TypeError ''Invalid connection details.''), ex_state)
   \<and> inst ex_env JUndefined (JStr []) ex_state = (Inl (TypeError ''Invalid connection details.''), ex_state)
   \<and> inst ex_env JUndefined (JRef 10) ex_state = (Inl (TypeError ''Invalid connection details.''), ex_state)
   \<and> inst ex_env JUndefined (JRef 16) ex_state = (Inr (JRef 40), ex_state)"
  using main_rejects_bad_arguments [where options = "JNum 5" and s = ex_state and E = ex_env
          and i = 30 and cn = JUndefined]
        main_rejects_bad_arguments [where options = "JRef 10" and s = ex_state and E = ex_env
          and i = 30 and cn = "JStr []"]
        main_rejects_bad_arguments [where options = "JRef 16" and s = ex_state and E = ex_env
          and i = 30 and cn = "JRef 10"]
  by (simp add: isNull_def typeof_def has_prop_def ex_state_def ex_heap_def plain_obj_def fn_obj_def
        inst_def ex_env_def)

section \<open>The context of a task or transaction\<close>

lemma ctx_finished_props:
  "map_of (props (ctx_finished tf r ob)) ''finish'' = Some tf"
  "map_of (props (ctx_finished tf (Return v) ob)) ''success'' = Some (JBool True)"
  "map_of (props (ctx_finished tf (Return v) ob)) ''result'' = Some v"
  "map_of (props (ctx_finished tf (Throw x) ob)) ''success'' = Some (JBool False)"
  "map_of (props (ctx_finished tf (Throw x) ob)) ''result'' = Some x"
  by (cases r; simp add: ctx_finished_def put_def update_conv')+

lemma ctx_finished_present:
  "\<exists>y. map_of (props (ctx_finished tf r ob)) ''success'' = Some y"
  "\<exists>y. map_of (props (ctx_finished tf r ob)) ''result'' = Some y"
  by (cases r; simp add: ctx_finished_def put_def update_conv')+

lemma ctx_created_props:
  "map_of (props (ctx_created tx tag cx ts)) ''finish'' = None"
  "map_of (props (ctx_created tx tag cx ts)) ''success'' = None"
  "map_of (props (ctx_created tx tag cx ts)) ''result'' = None"
  "map_of (props (ctx_created tx tag cx ts)) ''start'' = Some ts"
  by (cases tag; cases cx; simp add: ctx_created_def plain_obj_def)+

lemma ctx_finished_keeps:
  "k \<noteq> ''finish'' \<Longrightarrow> k \<noteq> ''success'' \<Longrightarrow> k \<noteq> ''result''
     \<Longrightarrow> map_of (props (ctx_finished tf r ob)) k = map_of (props ob) k"
  by (cases r) (simp_all add: ctx_finished_def put_def update_conv')

lemma settle_keeps_ctx:
  "get_prop sb (JRef e) ''ctx'' = JRef c \<Longrightarrow> get_prop (settle c tf r sb) (JRef e) ''ctx'' = JRef c"
  by (cases "e = c") (auto simp: get_prop_def settle_def ctx_finished_keeps)

lemma settle_fields:
  "has_prop (settle c tf r sb) (JRef c) ''finish''"
  "has_prop (settle c tf r sb) (JRef c) ''success''"
  "has_prop (settle c tf r sb) (JRef c) ''result''"
  "get_prop (settle c tf r sb) (JRef c) ''finish'' = tf"
  "get_prop (settle c tf (Return v) sb) (JRef c) ''success'' = JBool True"
  "get_prop (settle c tf (Return v) sb) (JRef c) ''result'' = v"
  "get_prop (settle c tf (Throw x) sb) (JRef c) ''success'' = JBool False"
  "get_prop (settle c tf (Throw x) sb) (JRef c) ''result'' = x"
  using ctx_finished_present [of tf r "heap sb c"]
  by (auto simp: has_prop_def get_prop_def settle_def ctx_finished_props)

lemma notify_handled:
  "handler st options (if tx then ''transact'' else ''task'') = Some f
     \<Longrightarrow> F f options [JRef e] st = (hc, sn)
     \<Longrightarrow> notify F options tx (JRef e) st =
           (Return JUndefined,
            case hc of Return u \<Rightarrow> sn
            | Throw w \<Rightarrow> unexpected (if tx then ''transact'' else ''task'') w sn)"
  by (cases hc) (auto simp: notify_def task_def transact_def)

lemma run_task_unfold:
  "body (snd (notify F options tx (JRef e) (started tx tag cx c e ts s))) = (r, sb) \<Longrightarrow>
     run_task F options tx tag cx c e ts tf body s =
       (r, snd (notify F options tx (JRef e) (settle c tf r sb)))"
  by (simp add: run_task_def Let_def)

text \<open>
  C3. A context that has just been created has no \<open>finish\<close>, no \<open>success\<close> and
  no \<open>result\<close>; a context that has been completed has all three, so \<open>finish\<close> is
  absent exactly when \<open>success\<close> and \<open>result\<close> are. Completion sets
  \<open>success\<close> to true and \<open>result\<close> to the resolved value on fulfilment, and
  \<open>success\<close> to false and \<open>result\<close> to the reason on rejection. The finish
  notification is dispatched on the state in which the context has just been completed:
  the handler is called there with the event context object, and the context that
  object holds as \<open>ctx\<close>, the one the handler reads, has \<open>finish\<close>,
  \<open>success\<close> and \<open>result\<close> with these values. The event context object is an
  ordinary object that user code is handed at the start notification; the link is stated
  for runs in which its \<open>ctx\<close> is still the context when the operation settles.
\<close>

theorem context_lifecycle:
  "(c \<noteq> e \<longrightarrow>
      ((\<not> has_prop (started tx tag cx c e ts s) (JRef c) ''finish'') =
        (\<not> has_prop (started tx tag cx c e ts s) (JRef c) ''success''
         \<and> \<not> has_prop (started tx tag cx c e ts s) (JRef c) ''result''))
      \<and> \<not> has_prop (started tx tag cx c e ts s) (JRef c) ''finish''
      \<and> get_prop (started tx tag cx c e ts s) (JRef c) ''start'' = ts
      \<and> get_prop (started tx tag cx c e ts s) (JRef e) ''ctx'' = JRef c)
   \<and> ((\<not> has_prop (settle c tf r sb) (JRef c) ''finish'') =
        (\<not> has_prop (settle c tf r sb) (JRef c) ''success''
         \<and> \<not> has_prop (settle c tf r sb) (JRef c) ''result''))
   \<and> has_prop (settle c tf r sb) (JRef c) ''finish''
   \<and> has_prop (settle c tf r sb) (JRef c) ''success''
   \<and> has_prop (settle c tf r sb) (JRef c) ''result''
   \<and> get_prop (settle c tf r sb) (JRef c) ''finish'' = tf
   \<and> get_prop (settle c tf (Return v) sb) (JRef c) ''success'' = JBool True
   \<and> get_prop (settle c tf (Return v) sb) (JRef c) ''result'' = v
   \<and> get_prop (settle c tf (Throw x) sb) (JRef c) ''success'' = JBool False
   \<and> get_prop (settle c tf (Throw x) sb) (JRef c) ''result'' = x
   \<and> (body (snd (notify F options tx (JRef e) (started tx tag cx c e ts s))) = (r, sb) \<longrightarrow>
        run_task F options tx tag cx c e ts tf body s =
          (r, snd (notify F options tx (JRef e) (settle c tf r sb))))
   \<and> (handler (settle c tf r sb) options (if tx then ''transact'' else ''task'') = Some f
       \<and> F f options [JRef e] (settle c tf r sb) = (hc, sn) \<longrightarrow>
        notify F options tx (JRef e) (settle c tf r sb) =
          (Return JUndefined,
           case hc of Return u \<Rightarrow> sn
           | Throw w \<Rightarrow> unexpected (if tx then ''transact'' else ''task'') w sn))
   \<and> (get_prop sb (JRef e) ''ctx'' = JRef c \<longrightarrow>
        get_prop (settle c tf r sb) (JRef e) ''ctx'' = JRef c
        \<and> has_prop (settle c tf r sb) (get_prop (settle c tf r sb) (JRef e) ''ctx'') ''finish''
        \<and> has_prop (settle c tf r sb) (get_prop (settle c tf r sb) (JRef e) ''ctx'') ''success''
        \<and> has_prop (settle c tf r sb) (get_prop (settle c tf r sb) (JRef e) ''ctx'') ''result''
        \<and> get_prop (settle c tf r sb) (get_prop (settle c tf r sb) (JRef e) ''ctx'') ''finish'' = tf
        \<and> get_prop (settle c tf (Return v) sb)
              (get_prop (settle c tf (Return v) sb) (JRef e) ''ctx'') ''success'' = JBool True
        \<and> get_prop (settle c tf (Return v) sb)
              (get_prop (settle c tf (Return v) sb) (JRef e) ''ctx'') ''result'' = v
        \<and> get_prop (settle c tf (Throw x) sb)
              (get_prop (settle c tf (Throw x) sb) (JRef e) ''ctx'') ''success'' = JBool False
        \<and> get_prop (settle c tf (Throw x) sb)
              (get_prop (settle c tf (Throw x) sb) (JRef e) ''ctx'') ''result'' = x)
   \<and> (body (snd (notify F options tx (JRef e) (started tx tag cx c e ts s))) = (r, sb)
       \<and> get_prop sb (JRef e) ''ctx'' = JRef c
       \<and> handler (settle c tf r sb) options (if tx then ''transact'' else ''task'') = Some f
       \<and> F f options [JRef e] (settle c tf r sb) = (hc, sn) \<longrightarrow>
        run_task F options tx tag cx c e ts tf body s =
          (r, case hc of Return u \<Rightarrow> sn
              | Throw w \<Rightarrow> unexpected (if tx then ''transact'' else ''task'') w sn)
        \<and> get_prop (settle c tf r sb) (JRef e) ''ctx'' = JRef c)"
proof -
  have start: "c \<noteq> e \<longrightarrow>
      ((\<not> has_prop (started tx tag cx c e ts s) (JRef c) ''finish'') =
        (\<not> has_prop (started tx tag cx c e ts s) (JRef c) ''success''
         \<and> \<not> has_prop (started tx tag cx c e ts s) (JRef c) ''result''))
      \<and> \<not> has_prop (started tx tag cx c e ts s) (JRef c) ''finish''
      \<and> get_prop (started tx tag cx c e ts s) (JRef c) ''start'' = ts
      \<and> get_prop (started tx tag cx c e ts s) (JRef e) ''ctx'' = JRef c"
    by (simp add: has_prop_def get_prop_def started_def ctx_created_props plain_obj_def)
  have keep: "get_prop sb (JRef e) ''ctx'' = JRef c \<Longrightarrow>
      get_prop (settle c tf rr sb) (JRef e) ''ctx'' = JRef c" for rr
    by (rule settle_keeps_ctx)
  show ?thesis
    apply (intro conjI)
    apply (rule start)
    apply (simp_all add: settle_fields keep notify_handled run_task_unfold)
    done
qed

theorem context_lifecycle_witness:
  "run_task ex_fenv (JRef 17) False None None 50 51 (JNum 100) (JNum 105)
       (\<lambda>s. (Return (JNum 42), s)) ex_state =
     (Return (JNum 42),
      ex_state\<lparr>heap := (heap ex_state)
                 (50 := plain_obj [(''isTX'', JBool False), (''start'', JNum 100),
                                   (''finish'', JNum 105), (''success'', JBool True),
                                   (''result'', JNum 42)],
                  51 := plain_obj [(''ctx'', JRef 50)]),
                console := [JUndefined, JUndefined, JUndefined, JNum 105, JBool True, JNum 42]\<rparr>)
   \<and> \<not> has_prop (started False None None 50 51 (JNum 100) ex_state) (JRef 50) ''finish''
   \<and> run_task ex_fenv (JRef 17) True (Some (JStr ''tx'')) None 50 51 (JNum 100) (JNum 105)
       (\<lambda>s. (Throw (JStr ''no''), s)) ex_state =
     (Throw (JStr ''no''),
      ex_state\<lparr>heap := (heap ex_state)
                 (50 := plain_obj [(''isTX'', JBool True), (''start'', JNum 100),
                                   (''tag'', JStr ''tx''), (''finish'', JNum 105),
                                   (''success'', JBool False), (''result'', JStr ''no'')],
                  51 := plain_obj [(''ctx'', JRef 50)]),
                console := [JUndefined, JUndefined, JUndefined, JNum 105, JBool False, JStr ''no'']\<rparr>)"
proof -
  define sb where "sb tx tag =
      (started tx tag None 50 51 (JNum 100) ex_state)
        \<lparr>console := [JUndefined, JUndefined, JUndefined]\<rparr>" for tx tag
  have first: "notify ex_fenv (JRef 17) tx (JRef 51) (started tx tag None 50 51 (JNum 100) ex_state)
      = (Return JUndefined, sb tx tag)" for tx tag
    by (cases tag)
       (simp_all add: sb_def notify_def task_def transact_def handler_def started_def
          ctx_created_def get_prop_def Function_at_def plain_obj_def fn_obj_def ex_state_def
          ex_heap_def ex_fenv_def Let_def)
  have ctx: "get_prop (sb tx tag) (JRef 51) ''ctx'' = JRef 50" for tx tag
    by (simp add: sb_def started_def get_prop_def plain_obj_def)
  have h: "handler (settle 50 (JNum 105) r (sb tx tag)) (JRef 17)
             (if tx then ''transact'' else ''task'') = Some 14" for tx tag r
    by (simp add: sb_def handler_def get_prop_def Function_at_def settle_def started_def
          ex_state_def ex_heap_def plain_obj_def fn_obj_def)
  have seen: "ex_fenv 14 (JRef 17) [JRef 51] (settle 50 (JNum 105) r (sb tx tag)) =
        (Return JUndefined,
         (settle 50 (JNum 105) r (sb tx tag))
           \<lparr>console := [JUndefined, JUndefined, JUndefined, JNum 105,
                         get_prop (settle 50 (JNum 105) r (sb tx tag)) (JRef 50) ''success'',
                         get_prop (settle 50 (JNum 105) r (sb tx tag)) (JRef 50) ''result'']\<rparr>)"
    for tx tag r
    using context_lifecycle [where c = 50 and e = 51 and tf = "JNum 105" and r = r
            and sb = "sb tx tag"] ctx [of tx tag]
    by (simp add: ex_fenv_def Let_def) (simp add: sb_def settle_def)
  have a: "run_task ex_fenv (JRef 17) False None None 50 51 (JNum 100) (JNum 105)
       (\<lambda>s. (Return (JNum 42), s)) ex_state =
     (Return (JNum 42),
      (settle 50 (JNum 105) (Return (JNum 42)) (sb False None))
        \<lparr>console := [JUndefined, JUndefined, JUndefined, JNum 105, JBool True, JNum 42]\<rparr>)"
    using context_lifecycle [where c = 50 and e = 51 and tx = False and tag = None and cx = None
          and ts = "JNum 100" and tf = "JNum 105" and s = ex_state and F = ex_fenv
          and options = "JRef 17" and body = "\<lambda>s. (Return (JNum 42), s)" and r = "Return (JNum 42)"
          and v = "JNum 42" and sb = "sb False None" and f = 14 and hc = "Return JUndefined"
          and sn = "(settle 50 (JNum 105) (Return (JNum 42)) (sb False None))
        \<lparr>console := [JUndefined, JUndefined, JUndefined, JNum 105, JBool True, JNum 42]\<rparr>"]
      first [of False None] ctx [of False None] h [of "Return (JNum 42)" False None]
      seen [of "Return (JNum 42)" False None]
    by simp
  have b: "run_task ex_fenv (JRef 17) True (Some (JStr ''tx'')) None 50 51 (JNum 100) (JNum 105)
       (\<lambda>s. (Throw (JStr ''no''), s)) ex_state =
     (Throw (JStr ''no''),
      (settle 50 (JNum 105) (Throw (JStr ''no'')) (sb True (Some (JStr ''tx''))))
        \<lparr>console := [JUndefined, JUndefined, JUndefined, JNum 105, JBool False, JStr ''no'']\<rparr>)"
    using context_lifecycle [where c = 50 and e = 51 and tx = True and tag = "Some (JStr ''tx'')"
          and cx = None and ts = "JNum 100" and tf = "JNum 105" and s = ex_state and F = ex_fenv
          and options = "JRef 17" and body = "\<lambda>s. (Throw (JStr ''no''), s)"
          and r = "Throw (JStr ''no'')" and x = "JStr ''no''"
          and sb = "sb True (Some (JStr ''tx''))" and f = 14 and hc = "Return JUndefined"
          and sn = "(settle 50 (JNum 105) (Throw (JStr ''no'')) (sb True (Some (JStr ''tx''))))
        \<lparr>console := [JUndefined, JUndefined, JUndefined, JNum 105, JBool False, JStr ''no'']\<rparr>"]
      first [of True "Some (JStr ''tx'')"] ctx [of True "Some (JStr ''tx'')"]
      h [of "Throw (JStr ''no'')" True "Some (JStr ''tx'')"]
      seen [of "Throw (JStr ''no'')" True "Some (JStr ''tx'')"]
    by simp
  have c: "\<not> has_prop (started False None None 50 51 (JNum 100) ex_state) (JRef 50) ''finish''"
    using context_lifecycle [where c = 50 and e = 51 and tx = False and tag = None and cx = None
          and ts = "JNum 100" and s = ex_state]
    by simp
  show ?thesis
    unfolding a b
    using c
    by (simp add: sb_def started_def settle_def ctx_created_def ctx_finished_def put_def
          plain_obj_def ex_state_def fun_eq_iff)
qed

section \<open>Locking a namespace\<close>

lemma lock_props_idem [simp]: "lock_props (lock_props ob) = lock_props ob"
  by (simp add: lock_props_def Un_assoc)

lemma props_lock_props [simp]: "props (lock_props ob) = props ob"
  by (simp add: lock_props_def)

lemma lock_at_lock_all: "lock_at a s = lock_all {a} s"
  by (simp add: lock_at_def lock_all_def fun_eq_iff)

lemma lock_all_lock_all: "lock_all A (lock_all B s) = lock_all (A \<union> B) s"
  by (simp add: lock_all_def fun_eq_iff)

lemma props_lock_all [simp]: "props (heap (lock_all A s) x) = props (heap s x)"
  by (simp add: lock_all_def)

lemma noLocking_lock_all [simp]: "noLocking (lock_all A s) = noLocking s"
  by (simp add: lock_all_def)

lemma fold_lock_None:
  "fold (\<lambda>v r. case r of None \<Rightarrow> None
                 | Some s' \<Rightarrow> (case v of JRef b \<Rightarrow> lock_walk n b s' | _ \<Rightarrow> Some s'))
        vs None = None"
  by (induction vs) simp_all

lemma lock_children_sets:
  assumes walk: "\<And>b s s'. lock_walk n b s = Some s' \<Longrightarrow>
            \<exists>B. b \<in> B \<and> s' = lock_all B s
              \<and> (\<forall>s0. (\<forall>x. props (heap s0 x) = props (heap s x)) \<longrightarrow>
                     lock_walk n b s0 = Some (lock_all B s0))"
  shows "fold (\<lambda>v r. case r of None \<Rightarrow> None
                 | Some s' \<Rightarrow> (case v of JRef b \<Rightarrow> lock_walk n b s' | _ \<Rightarrow> Some s'))
           vs (Some sa) = Some s'
         \<Longrightarrow> \<exists>A. s' = lock_all A sa
              \<and> (\<forall>s0. (\<forall>x. props (heap s0 x) = props (heap sa x)) \<longrightarrow>
                    fold (\<lambda>v r. case r of None \<Rightarrow> None
                           | Some s' \<Rightarrow> (case v of JRef b \<Rightarrow> lock_walk n b s' | _ \<Rightarrow> Some s'))
                      vs (Some s0) = Some (lock_all A s0))"
proof (induction vs arbitrary: sa)
  case Nil
  then have "s' = lock_all {} sa" by (simp add: lock_all_def)
  then show ?case by (intro exI [of _ "{}"]) (simp add: lock_all_def)
next
  case (Cons v vs)
  show ?case
  proof (cases "\<exists>b. v = JRef b")
    case False
    then have step: "\<And>t. (case v of JRef b \<Rightarrow> lock_walk n b t | _ \<Rightarrow> Some t) = Some t"
      by (cases v) simp_all
    from Cons.prems have "fold (\<lambda>v r. case r of None \<Rightarrow> None
                 | Some s' \<Rightarrow> (case v of JRef b \<Rightarrow> lock_walk n b s' | _ \<Rightarrow> Some s'))
           vs (Some sa) = Some s'"
      by (simp add: step)
    from Cons.IH [OF this] obtain A where A: "s' = lock_all A sa"
      "\<forall>s0. (\<forall>x. props (heap s0 x) = props (heap sa x)) \<longrightarrow>
                    fold (\<lambda>v r. case r of None \<Rightarrow> None
                           | Some s' \<Rightarrow> (case v of JRef b \<Rightarrow> lock_walk n b s' | _ \<Rightarrow> Some s'))
                      vs (Some s0) = Some (lock_all A s0)"
      by blast
    show ?thesis
      using A by (intro exI [of _ A]) (simp add: step)
  next
    case True
    then obtain b where v: "v = JRef b" by blast
    show ?thesis
    proof (cases "lock_walk n b sa")
      case None
      with Cons.prems v show ?thesis by (simp add: fold_lock_None)
    next
      case (Some sb)
      from walk [OF Some] obtain B where B: "sb = lock_all B sa"
        "\<forall>s0. (\<forall>x. props (heap s0 x) = props (heap sa x)) \<longrightarrow>
                     lock_walk n b s0 = Some (lock_all B s0)"
        by blast
      from Cons.prems v Some have "fold (\<lambda>v r. case r of None \<Rightarrow> None
                 | Some s' \<Rightarrow> (case v of JRef b \<Rightarrow> lock_walk n b s' | _ \<Rightarrow> Some s'))
           vs (Some sb) = Some s'"
        by simp
      from Cons.IH [OF this] obtain A where A: "s' = lock_all A sb"
        "\<forall>s0. (\<forall>x. props (heap s0 x) = props (heap sb x)) \<longrightarrow>
                    fold (\<lambda>v r. case r of None \<Rightarrow> None
                           | Some s' \<Rightarrow> (case v of JRef b \<Rightarrow> lock_walk n b s' | _ \<Rightarrow> Some s'))
                      vs (Some s0) = Some (lock_all A s0)"
        by blast
      have "s' = lock_all (A \<union> B) sa"
        using A(1) B(1) by (simp add: lock_all_lock_all)
      moreover have "\<forall>s0. (\<forall>x. props (heap s0 x) = props (heap sa x)) \<longrightarrow>
                    fold (\<lambda>v r. case r of None \<Rightarrow> None
                           | Some s' \<Rightarrow> (case v of JRef b \<Rightarrow> lock_walk n b s' | _ \<Rightarrow> Some s'))
                      (v # vs) (Some s0) = Some (lock_all (A \<union> B) s0)"
      proof (intro allI impI)
        fix s0 :: state assume same: "\<forall>x. props (heap s0 x) = props (heap sa x)"
        then have w: "lock_walk n b s0 = Some (lock_all B s0)" using B(2) by blast
        have "\<forall>x. props (heap (lock_all B s0) x) = props (heap sb x)"
          using same B(1) by simp
        then have "fold (\<lambda>v r. case r of None \<Rightarrow> None
                           | Some s' \<Rightarrow> (case v of JRef b \<Rightarrow> lock_walk n b s' | _ \<Rightarrow> Some s'))
                      vs (Some (lock_all B s0)) = Some (lock_all A (lock_all B s0))"
          using A(2) by blast
        then show "fold (\<lambda>v r. case r of None \<Rightarrow> None
                           | Some s' \<Rightarrow> (case v of JRef b \<Rightarrow> lock_walk n b s' | _ \<Rightarrow> Some s'))
                      (v # vs) (Some s0) = Some (lock_all (A \<union> B) s0)"
          using v w by (simp add: lock_all_lock_all)
      qed
      ultimately show ?thesis by blast
    qed
  qed
qed

lemma lock_walk_sets:
  "lock_walk n a s = Some s' \<Longrightarrow>
     \<exists>A. a \<in> A \<and> s' = lock_all A s
       \<and> (\<forall>s0. (\<forall>x. props (heap s0 x) = props (heap s x)) \<longrightarrow>
              lock_walk n a s0 = Some (lock_all A s0))"
proof (induction n arbitrary: a s s')
  case 0
  then show ?case by simp
next
  case (Suc n)
  from Suc.prems have "fold (\<lambda>v r. case r of None \<Rightarrow> None
                 | Some s' \<Rightarrow> (case v of JRef b \<Rightarrow> lock_walk n b s' | _ \<Rightarrow> Some s'))
           (map snd (props (heap s a))) (Some (lock_all {a} s)) = Some s'"
    by (simp add: lock_at_lock_all)
  from lock_children_sets [OF Suc.IH this] obtain A where A: "s' = lock_all A (lock_all {a} s)"
    "\<forall>s0. (\<forall>x. props (heap s0 x) = props (heap (lock_all {a} s) x)) \<longrightarrow>
                    fold (\<lambda>v r. case r of None \<Rightarrow> None
                           | Some s' \<Rightarrow> (case v of JRef b \<Rightarrow> lock_walk n b s' | _ \<Rightarrow> Some s'))
                      (map snd (props (heap s a))) (Some s0) = Some (lock_all A s0)"
    by blast
  have "a \<in> A \<union> {a}" by simp
  moreover have "s' = lock_all (A \<union> {a}) s"
    using A(1) by (simp add: lock_all_lock_all)
  moreover have "\<forall>s0. (\<forall>x. props (heap s0 x) = props (heap s x)) \<longrightarrow>
              lock_walk (Suc n) a s0 = Some (lock_all (A \<union> {a}) s0)"
  proof (intro allI impI)
    fix s0 :: state assume same: "\<forall>x. props (heap s0 x) = props (heap s x)"
    then have "\<forall>x. props (heap (lock_all {a} s0) x) = props (heap (lock_all {a} s) x)"
      by simp
    then have "fold (\<lambda>v r. case r of None \<Rightarrow> None
                           | Some s' \<Rightarrow> (case v of JRef b \<Rightarrow> lock_walk n b s' | _ \<Rightarrow> Some s'))
                      (map snd (props (heap s a))) (Some (lock_all {a} s0))
               = Some (lock_all A (lock_all {a} s0))"
      using A(2) by blast
    then show "lock_walk (Suc n) a s0 = Some (lock_all (A \<union> {a}) s0)"
      using same by (simp add: lock_at_lock_all lock_all_lock_all)
  qed
  ultimately show ?case by blast
qed

lemma lock_walk_idem: "lock_walk n a s = Some s' \<Longrightarrow> lock_walk n a s' = Some s'"
proof -
  assume "lock_walk n a s = Some s'"
  from lock_walk_sets [OF this] obtain A where A: "s' = lock_all A s"
    "\<forall>s0. (\<forall>x. props (heap s0 x) = props (heap s x)) \<longrightarrow>
              lock_walk n a s0 = Some (lock_all A s0)"
    by blast
  have "lock_walk n a (lock_all A s) = Some (lock_all A (lock_all A s))"
    using A(2) by simp
  then show ?thesis using A(1) by (simp add: lock_all_lock_all)
qed

lemma lock_walk_protects:
  "lock_walk n a s = Some s' \<Longrightarrow> map_of (props (heap s a)) k \<noteq> None
     \<Longrightarrow> set_prop a k v s' = Inl (WriteProtected k)"
proof -
  assume w: "lock_walk n a s = Some s'" and k: "map_of (props (heap s a)) k \<noteq> None"
  from lock_walk_sets [OF w] obtain A where A: "a \<in> A" "s' = lock_all A s" by blast
  from k have "k \<in> fst ` set (props (heap s a))"
    by (metis domIff dom_map_of_conv_image_fst)
  then show ?thesis
    using A k by (simp add: set_prop_def lock_all_def lock_props_def Let_def)
qed

lemma lock_walk_noLocking: "lock_walk n a s = Some s' \<Longrightarrow> noLocking s' = noLocking s"
  using lock_walk_sets [of n a s s'] by auto

lemma noLocking_lock [simp]: "noLocking (lock t s) = noLocking s"
  by (cases t) (simp_all add: lock_def lock_at_def)

lemma noLocking_addProperties [simp]: "noLocking (addProperties a b s) = noLocking s"
  by (simp add: addProperties_def)

lemma lock_idem: "lock t (lock t s) = lock t s"
  by (cases t) (simp_all add: lock_def lock_at_lock_all lock_all_lock_all)

lemma lock_deep_idem: "lock_deep n t s = Some s' \<Longrightarrow> lock_deep n t s' = Some s'"
  by (cases t) (auto simp: lock_deep_def lock_walk_idem lock_walk_noLocking split: if_splits)

lemma lock_protects:
  "\<not> noLocking s \<Longrightarrow> has_prop s (JRef a) k \<Longrightarrow> set_prop a k v (lock (JRef a) s) = Inl (WriteProtected k)"
  by (auto simp: lock_def lock_at_def set_prop_def has_prop_def lock_props_def Let_def
        dom_map_of_conv_image_fst [symmetric])

lemma lock_deep_protects:
  "\<not> noLocking s \<Longrightarrow> has_prop s (JRef a) k \<Longrightarrow> lock_deep n (JRef a) s = Some s'
     \<Longrightarrow> set_prop a k v s' = Inl (WriteProtected k)"
  by (simp add: lock_deep_def has_prop_def lock_walk_protects)

lemma main_root_protected:
  "main E i options s = (Inr r, sm) \<Longrightarrow>
     r = JRef i \<and> (\<not> noLocking sm \<and> has_prop sm r k \<longrightarrow> set_prop i k v sm = Inl (WriteProtected k))"
  by (auto simp: main_def lock_def lock_at_def has_prop_def set_prop_def Let_def lock_props_def
        dom_map_of_conv_image_fst [symmetric]
        split: prod.splits sum.splits completion.splits if_splits)

lemma ex_main_undefined:
  "main ex_env 30 JUndefined ex_state =
     (Inr (JRef 30), lock_at 30 (addProperties 30 20 (ex_state\<lparr>heap := (heap ex_state)(30 := fn_obj)\<rparr>)))"
  by (simp add: main_def invalidInit_def isNull_def ex_env_def lock_def ex_state_def addProperties_def)

lemma ex_main_noLocking:
  "main ex_env 30 (JRef 15) ex_state =
     (Inr (JRef 30), lock_at 30 (addProperties 30 20 (ex_state\<lparr>heap := (heap ex_state)(30 := fn_obj)\<rparr>)))"
  by (simp add: main_def invalidInit_def isNull_def ex_env_def lock_def ex_state_def addProperties_def
        typeof_def has_prop_def ex_heap_def plain_obj_def get_prop_def)

lemma ex_root_props:
  "props (heap (lock_at 30 (addProperties 30 20 (ex_state\<lparr>heap := (heap ex_state)(30 := fn_obj)\<rparr>))) 30)
     = [(''end'', JRef 21), (''as'', JRef 22), (''pg'', JRef 23), (''txMode'', JRef 29)]"
  by (simp add: lock_at_def addProperties_def ex_state_def ex_heap_def plain_obj_def fn_obj_def put_def)

text \<open>
  C4, as amended. Locking a namespace object a second time changes nothing, for the
  shallow and for the deep lock. After a lock, an assignment to a member the object had
  when it was locked fails with a write-protection error. When the process-wide
  no-locking flag is set at the time of the call, \<open>lock\<close> leaves the state as it is.
  \<open>$main\<close> locks the object it returns with \<open>lock(inst)\<close> and gives the lock
  nothing of its \<open>options\<close>: whatever \<open>options\<close> is, every member of the returned
  object is write-protected unless the process-wide flag is set.
\<close>

theorem namespace_lock:
  "lock t (lock t s) = lock t s
   \<and> (lock_deep n t s = Some s' \<longrightarrow> lock_deep n t s' = Some s')
   \<and> (\<not> noLocking s \<and> has_prop s (JRef a) k \<longrightarrow>
        set_prop a k v (lock (JRef a) s) = Inl (WriteProtected k))
   \<and> (\<not> noLocking s \<and> has_prop s (JRef a) k \<and> lock_deep n (JRef a) s = Some s' \<longrightarrow>
        set_prop a k v s' = Inl (WriteProtected k))
   \<and> (noLocking s \<longrightarrow> lock t s = s \<and> lock_deep n t s = Some s)
   \<and> (main E i options s = (Inr r, sm) \<longrightarrow>
        r = JRef i
        \<and> (\<not> noLocking sm \<and> has_prop sm r k \<longrightarrow> set_prop i k v sm = Inl (WriteProtected k)))"
  using lock_idem [of t s] lock_deep_idem [of n t s s'] lock_protects [of s a k v]
    lock_deep_protects [of s a k n s' v] main_root_protected [of E i options s r sm k v]
  by (simp add: lock_def lock_deep_def)

text \<open>
  The claim as first stated fails on the root object. Initialized with
  \<open>noLocking\<close> set in the options, the library still returns a root object whose
  member \<open>as\<close> cannot be overwritten; and on a locked root object a member under a
  new name can still be added, the lock covering the existing members only.
\<close>

theorem root_lock_ignores_noLocking_option:
  "get_prop ex_state (JRef 15) ''noLocking'' = JBool True
   \<and> fst (main ex_env 30 (JRef 15) ex_state) = Inr (JRef 30)
   \<and> \<not> noLocking (snd (main ex_env 30 (JRef 15) ex_state))
   \<and> set_prop 30 ''as'' (JNum 1) (snd (main ex_env 30 (JRef 15) ex_state)) = Inl (WriteProtected ''as'')
   \<and> fst (main ex_env 30 JUndefined ex_state) = Inr (JRef 30)
   \<and> \<not> isl (set_prop 30 ''extra'' (JNum 1) (snd (main ex_env 30 JUndefined ex_state)))"
  by (simp add: ex_main_undefined ex_main_noLocking)
     (simp add: set_prop_def Let_def lock_at_def addProperties_def ex_state_def ex_heap_def
        plain_obj_def fn_obj_def put_def lock_props_def get_prop_def)

theorem namespace_lock_witness:
  "lock (JRef 20) (lock (JRef 20) ex_state) = lock (JRef 20) ex_state
   \<and> lock_deep (Suc (Suc 0)) (JRef 22) ex_state = Some (lock_at 31 (lock_at 21 (lock_at 22 ex_state)))
   \<and> lock_deep (Suc (Suc 0)) (JRef 22) (lock_at 31 (lock_at 21 (lock_at 22 ex_state)))
       = Some (lock_at 31 (lock_at 21 (lock_at 22 ex_state)))
   \<and> set_prop 20 ''as'' (JNum 1) (lock (JRef 20) ex_state) = Inl (WriteProtected ''as'')
   \<and> set_prop 22 ''csv'' (JNum 1) (lock_at 31 (lock_at 21 (lock_at 22 ex_state)))
       = Inl (WriteProtected ''csv'')
   \<and> lock (JRef 20) (ex_state\<lparr>noLocking := True\<rparr>) = ex_state\<lparr>noLocking := True\<rparr>
   \<and> lock_deep (Suc (Suc 0)) (JRef 22) (ex_state\<lparr>noLocking := True\<rparr>)
       = Some (ex_state\<lparr>noLocking := True\<rparr>)
   \<and> \<not> isl (set_prop 20 ''as'' (JNum 1) (lock (JRef 20) (ex_state\<lparr>noLocking := True\<rparr>)))
   \<and> main ex_env 30 (JRef 15) ex_state =
       (Inr (JRef 30), lock_at 30 (addProperties 30 20 (ex_state\<lparr>heap := (heap ex_state)(30 := fn_obj)\<rparr>)))
   \<and> set_prop 30 ''as'' (JNum 1)
         (lock_at 30 (addProperties 30 20 (ex_state\<lparr>heap := (heap ex_state)(30 := fn_obj)\<rparr>)))
       = Inl (WriteProtected ''as'')"
proof -
  have deep: "lock_deep (Suc (Suc 0)) (JRef 22) ex_state = Some (lock_at 31 (lock_at 21 (lock_at 22 ex_state)))"
    by (simp add: lock_deep_def ex_state_def ex_heap_def plain_obj_def fn_obj_def lock_at_def)
  have flag: "\<not> noLocking ex_state" "noLocking (ex_state\<lparr>noLocking := True\<rparr>)"
    by (simp_all add: ex_state_def)
  have has: "has_prop ex_state (JRef 20) ''as''" "has_prop ex_state (JRef 22) ''csv''"
    by (simp_all add: has_prop_def ex_state_def ex_heap_def plain_obj_def)
  have m: "main ex_env 30 (JRef 15) ex_state =
       (Inr (JRef 30), lock_at 30 (addProperties 30 20 (ex_state\<lparr>heap := (heap ex_state)(30 := fn_obj)\<rparr>)))"
    by (rule ex_main_noLocking)
  have mflag: "\<not> noLocking (lock_at 30 (addProperties 30 20 (ex_state\<lparr>heap := (heap ex_state)(30 := fn_obj)\<rparr>)))"
    by (simp add: lock_at_def addProperties_def ex_state_def)
  have mhas: "has_prop (lock_at 30 (addProperties 30 20 (ex_state\<lparr>heap := (heap ex_state)(30 := fn_obj)\<rparr>)))
                (JRef 30) ''as''"
    by (simp add: has_prop_def ex_root_props)
  have free: "\<not> isl (set_prop 20 ''as'' (JNum 1) (ex_state\<lparr>noLocking := True\<rparr>))"
    by (simp add: set_prop_def Let_def ex_state_def ex_heap_def plain_obj_def)
  have c1: "lock (JRef 20) (lock (JRef 20) ex_state) = lock (JRef 20) ex_state"
    using namespace_lock [where t = "JRef 20" and s = ex_state] by blast
  have c2: "lock_deep (Suc (Suc 0)) (JRef 22) (lock_at 31 (lock_at 21 (lock_at 22 ex_state)))
       = Some (lock_at 31 (lock_at 21 (lock_at 22 ex_state)))"
    using namespace_lock [where t = "JRef 22" and s = ex_state and n = "Suc (Suc 0)"
            and s' = "lock_at 31 (lock_at 21 (lock_at 22 ex_state))"] deep by blast
  have c3: "set_prop 20 ''as'' (JNum 1) (lock (JRef 20) ex_state) = Inl (WriteProtected ''as'')"
    using namespace_lock [where s = ex_state and a = 20 and k = "''as''" and v = "JNum 1"]
      flag(1) has(1) by blast
  have c4: "set_prop 22 ''csv'' (JNum 1) (lock_at 31 (lock_at 21 (lock_at 22 ex_state)))
       = Inl (WriteProtected ''csv'')"
    using namespace_lock [where s = ex_state and a = 22 and k = "''csv''" and v = "JNum 1"
            and n = "Suc (Suc 0)" and s' = "lock_at 31 (lock_at 21 (lock_at 22 ex_state))"]
      flag(1) has(2) deep by blast
  have c5: "lock (JRef 20) (ex_state\<lparr>noLocking := True\<rparr>) = ex_state\<lparr>noLocking := True\<rparr>"
    using namespace_lock [where t = "JRef 20" and s = "ex_state\<lparr>noLocking := True\<rparr>"] flag(2)
    by blast
  have c6: "lock_deep (Suc (Suc 0)) (JRef 22) (ex_state\<lparr>noLocking := True\<rparr>)
       = Some (ex_state\<lparr>noLocking := True\<rparr>)"
    using namespace_lock [where t = "JRef 22" and s = "ex_state\<lparr>noLocking := True\<rparr>"
            and n = "Suc (Suc 0)"] flag(2)
    by blast
  have c7: "\<not> isl (set_prop 20 ''as'' (JNum 1) (lock (JRef 20) (ex_state\<lparr>noLocking := True\<rparr>)))"
    using c5 free by simp
  have c8: "set_prop 30 ''as'' (JNum 1)
         (lock_at 30 (addProperties 30 20 (ex_state\<lparr>heap := (heap ex_state)(30 := fn_obj)\<rparr>)))
       = Inl (WriteProtected ''as'')"
    using namespace_lock [where E = ex_env and i = 30 and options = "JRef 15" and s = ex_state
            and r = "JRef 30" and k = "''as''" and v = "JNum 1"
            and sm = "lock_at 30 (addProperties 30 20 (ex_state\<lparr>heap := (heap ex_state)(30 := fn_obj)\<rparr>))"]
      m mflag mhas by blast
  show ?thesis
    using c1 deep c2 c3 c4 c5 c6 c7 m c8 by blast
qed

end
